theory Spec2Isabelle
  imports Complex_Main "HOL-Library.Sublist" "HOL-Library.AList"
begin


section \<open>JavaScript strings\<close>

text \<open>
  A JavaScript string is a sequence of UTF-16 code units; \<open>length\<close>, \<open>charAt\<close>,
  \<open>includes\<close> and the regular expressions of the sources (none has the \<open>u\<close> flag) all
  work on code units. A string is modelled as the list of its code units, each a natural
  number. \<open>js\<close> turns a HOL literal into such a list.
\<close>

type_synonym jsstring = "nat list"

definition js :: "string \<Rightarrow> jsstring" where
  "js s = map of_char s"

text \<open>
  \<open>String.prototype.toLowerCase\<close>. The runtime lower-cases by the Unicode tables; the
  definition below is that mapping on the code units below 256 (\<open>A\<close>--\<open>Z\<close> and the
  Latin-1 capitals \<open>U+00C0\<close>--\<open>U+00DE\<close> without the multiplication sign \<open>U+00D7\<close>)
  and leaves every other code unit as it is.
\<close>

definition lower_unit :: "nat \<Rightarrow> nat" where
  "lower_unit c =
     (if 65 \<le> c \<and> c \<le> 90 then c + 32
      else if 192 \<le> c \<and> c \<le> 222 \<and> c \<noteq> 215 then c + 32
      else c)"

definition toLowerCase :: "jsstring \<Rightarrow> jsstring" where
  "toLowerCase s = map lower_unit s"

text \<open>\<open>s.includes(k)\<close>: \<open>k\<close> occurs in \<open>s\<close> as a contiguous run of code units.\<close>

fun starts_with :: "jsstring \<Rightarrow> jsstring \<Rightarrow> bool" where
  "starts_with s [] = True"
| "starts_with [] (k # ks) = False"
| "starts_with (c # cs) (k # ks) = (c = k \<and> starts_with cs ks)"

fun includes_js :: "jsstring \<Rightarrow> jsstring \<Rightarrow> bool" where
  "includes_js [] k = (k = [])"
| "includes_js (c # cs) k = (starts_with (c # cs) k \<or> includes_js cs k)"

section \<open>ai-service.js: preprocessMessage\<close>

text \<open>The class \<open>\w\<close> of a regular expression without the \<open>u\<close> and \<open>i\<close> flags:
  \<open>[A-Za-z0-9_]\<close>.\<close>

definition is_word :: "nat \<Rightarrow> bool" where
  "is_word c = ((48 \<le> c \<and> c \<le> 57) \<or> (65 \<le> c \<and> c \<le> 90) \<or> c = 95 \<or> (97 \<le> c \<and> c \<le> 122))"

text \<open>
  The assertion \<open>\b\<close> holds at a position when exactly one of the code units before
  and after it is a word character; the outside of the string counts as a non-word
  character. \<open>prev\<close> is the code unit before the position (\<open>None\<close> at the start of
  the string), \<open>rest\<close> is the text from the position on.
\<close>

definition word_before :: "nat option \<Rightarrow> bool" where
  "word_before prev = (case prev of None \<Rightarrow> False | Some p \<Rightarrow> is_word p)"

definition word_after :: "jsstring \<Rightarrow> bool" where
  "word_after rest = (case rest of [] \<Rightarrow> False | y # _ \<Rightarrow> is_word y)"

definition word_boundary :: "nat option \<Rightarrow> jsstring \<Rightarrow> bool" where
  "word_boundary prev rest = (word_before prev \<noteq> word_after rest)"

text \<open>
  \<open>new RegExp('\\b' + typo + '\\b', 'g')\<close> matches at a position when the literal
  typo (letters only, in every entry of the table) stands there between two word
  boundaries.
\<close>

definition typo_matches :: "jsstring \<Rightarrow> nat option \<Rightarrow> jsstring \<Rightarrow> bool" where
  "typo_matches typo prev rest =
     (word_boundary prev rest \<and> starts_with rest typo \<and>
      word_boundary (Some (last typo)) (drop (length typo) rest))"

text \<open>
  \<open>processed.replace(regex, correction)\<close> with the global flag: the text is scanned
  from the left, every match is replaced by the correction and the scan goes on behind the
  match. The table has no empty typo; the scan below steps over one code unit where the
  typo is empty.
\<close>

function replace_typo :: "jsstring \<Rightarrow> jsstring \<Rightarrow> nat option \<Rightarrow> jsstring \<Rightarrow> jsstring" where
  "replace_typo typo correction prev [] = []"
| "replace_typo typo correction prev (c # cs) =
     (if typo \<noteq> [] \<and> typo_matches typo prev (c # cs)
      then correction @
           replace_typo typo correction (Some (last typo)) (drop (length typo) (c # cs))
      else c # replace_typo typo correction (Some c) cs)"
  by pat_completeness auto
termination
  by (relation "measure (\<lambda>(t, c, p, s). length s)") auto

definition corrections :: "(jsstring \<times> jsstring) list" where
  "corrections = map (\<lambda>(t, c). (js t, js c))
    [(''wat'', ''what''), (''wht'', ''what''), (''whts'', ''whats''), (''u'', ''you''),
     (''ur'', ''your''), (''r'', ''are''), (''n'', ''and''), (''thnks'', ''thanks''),
     (''thx'', ''thanks''), (''pls'', ''please''), (''plz'', ''please''), (''frm'', ''from''),
     (''liv'', ''live''), (''livng'', ''living''), (''eet'', ''eat''), (''eeting'', ''eating''),
     (''hnt'', ''hunt''), (''hnting'', ''hunting''), (''skil'', ''skill''), (''skils'', ''skills''),
     (''problm'', ''problem''), (''problms'', ''problems''), (''chalenge'', ''challenge''),
     (''chalenges'', ''challenges''), (''difcult'', ''difficult''), (''mesage'', ''message''),
     (''mesages'', ''messages''), (''undrstand'', ''understand''),
     (''undrstanding'', ''understanding''), (''capabilites'', ''capabilities''),
     (''abilty'', ''ability''), (''abilties'', ''abilities''), (''territor'', ''territory''),
     (''territores'', ''territories''), (''locat'', ''locate''), (''locaton'', ''location''),
     (''locatons'', ''locations''), (''hom'', ''home''), (''homes'', ''homes''),
     (''plac'', ''place''), (''places'', ''places''), (''nam'', ''name''), (''nams'', ''names''),
     (''nime'', ''name''), (''nimes'', ''names''), (''ho'', ''who''), (''cal'', ''call''),
     (''caling'', ''calling''), (''identif'', ''identify''), (''identifing'', ''identifying''),
     (''favort'', ''favorite''), (''favortes'', ''favorites''), (''foood'', ''food''),
     (''meel'', ''meal''), (''meels'', ''meals''), (''seel'', ''seal''), (''seels'', ''seals''),
     (''prey'', ''prey''), (''preys'', ''preys''), (''consume'', ''consume''),
     (''consuming'', ''consuming''), (''specil'', ''special''), (''specials'', ''specials''),
     (''hel'', ''help''), (''helping'', ''helping''), (''worr'', ''worry''),
     (''worring'', ''worrying''), (''concer'', ''concern''), (''concerning'', ''concerning''),
     (''issu'', ''issue''), (''issues'', ''issues''), (''troubl'', ''trouble''),
     (''troubles'', ''troubles''), (''hardst'', ''hardest''), (''struggl'', ''struggle''),
     (''struggling'', ''struggling''), (''wan'', ''want''), (''wanting'', ''wanting''),
     (''shar'', ''share''), (''sharing'', ''sharing''), (''hop'', ''hope''),
     (''hoping'', ''hoping''), (''drem'', ''dream''), (''dreaming'', ''dreaming''),
     (''tomorow'', ''tomorrow''), (''comng'', ''coming''), (''ahed'', ''ahead''),
     (''visin'', ''vision''), (''visions'', ''visions'')]"

text \<open>
  The loop over \<open>Object.entries(corrections)\<close> visits the entries in the order they are
  written (no key is an integer index), each replacement working on the result of the one
  before.
\<close>

definition apply_corrections :: "(jsstring \<times> jsstring) list \<Rightarrow> jsstring \<Rightarrow> jsstring" where
  "apply_corrections table processed =
     foldl (\<lambda>p (typo, correction). replace_typo typo correction None p) processed table"

definition preprocessMessage :: "jsstring \<Rightarrow> jsstring" where
  "preprocessMessage message = apply_corrections corrections (toLowerCase message)"

section \<open>ai-service.js: levenshteinDistance and fuzzyMatch\<close>

text \<open>
  The source fills a matrix with one row for every prefix of \<open>str2\<close> and one column
  for every prefix of \<open>str1\<close>. Row \<open>0\<close> is \<open>0, 1, \<dots>, str1.length\<close> and every row
  \<open>i\<close> starts with \<open>i\<close>. \<open>fill_row\<close> is the inner loop over \<open>j\<close>: \<open>d\<close> is
  \<open>str2.charAt(i - 1)\<close>, the second argument is what is left of \<open>str1\<close>, \<open>upper\<close> is
  the row \<open>i - 1\<close> from column \<open>j - 1\<close> on and \<open>left\<close> is \<open>matrix[i][j - 1]\<close>.
\<close>

fun fill_row :: "nat \<Rightarrow> jsstring \<Rightarrow> nat list \<Rightarrow> nat \<Rightarrow> nat list" where
  "fill_row d (c # cs) (diag # up # upper) left =
     (let v = (if d = c then diag else min (diag + 1) (min (left + 1) (up + 1)))
      in v # fill_row d cs (up # upper) v)"
| "fill_row d cs upper left = []"

definition levenshtein_rows :: "jsstring \<Rightarrow> jsstring \<Rightarrow> nat list" where
  "levenshtein_rows str1 str2 =
     foldl (\<lambda>upper (i, d). i # fill_row d str1 upper i)
       [0 ..< Suc (length str1)] (zip [1 ..< Suc (length str2)] str2)"

definition levenshteinDistance :: "jsstring \<Rightarrow> jsstring \<Rightarrow> nat" where
  "levenshteinDistance str1 str2 = last (levenshtein_rows str1 str2)"

text \<open>
  \<open>fuzzyMatch(str1, str2, threshold = 0.6)\<close>. The source computes
  \<open>1 - distance / maxLength >= 0.6\<close> in double precision. Both numbers are small integers,
  so the quotient is the double nearest to the exact one; where the exact value of
  \<open>1 - distance / maxLength\<close> is \<open>3/5\<close> the double result is the double \<open>0.6\<close> itself, and
  everywhere else it is away from \<open>0.6\<close> by far more than the rounding error. The
  comparison is therefore the one on the exact values. With two empty strings the
  quotient is \<open>0 / 0 = NaN\<close> and the comparison is false.
\<close>

definition fuzzyMatch :: "jsstring \<Rightarrow> jsstring \<Rightarrow> bool" where
  "fuzzyMatch str1 str2 =
     (let distance = levenshteinDistance (toLowerCase str1) (toLowerCase str2);
          maxLength = max (length str1) (length str2)
      in maxLength \<noteq> 0 \<and> (1 :: real) - real distance / real maxLength \<ge> 6 / 10)"

section \<open>ai-service.js: detectTopic\<close>

text \<open>
  The table is an object literal with one array of keywords for each topic;
  \<open>Object.entries\<close> lists its entries in the order they are written.
\<close>

definition greeting_keywords :: "jsstring list" where
  "greeting_keywords = map js
     [''hello'', ''hi'', ''hey'', ''hola'', ''que tal'', ''como estas'', ''how are you'',
      ''whats up'', ''sup'', ''good morning'', ''good afternoon'', ''good evening'',
      ''buenos dias'', ''buenas tardes'', ''buenas noches'', ''hii'', ''hiii'', ''heyy'',
      ''heyyy'', ''holaa'', ''holaaa'', ''hey there'', ''hi there'', ''hello there'']"

definition name_keywords :: "jsstring list" where
  "name_keywords = map js
     [''your name'', ''what are you'', ''who are you'', ''introduce yourself'', ''name'',
      ''who'', ''call'', ''identify'', ''nam'', ''ho'', ''cal'', ''identif'',
      ''what is your name'', ''whats your name'', ''whats ur name'', ''what is ur name'',
      ''tell me your name'', ''who are u'', ''what are u'']"

definition location_keywords :: "jsstring list" where
  "location_keywords = map js
     [''where do you'', ''where are you'', ''where do you live'', ''where do you spend'',
      ''where in the arctic'', ''where'', ''live'', ''home'', ''place'', ''location'',
      ''spend time'', ''from'', ''located'', ''territory'', ''wer'', ''liv'', ''hom'',
      ''plac'', ''locat'', ''territor'']"

definition food_keywords :: "jsstring list" where
  "food_keywords = map js
     [''favorite food'', ''what do you eat'', ''what do you hunt'',
      ''what do you like to eat'', ''food'', ''eat'', ''hunt'', ''hunting'', ''meal'',
      ''diet'', ''seal'', ''prey'', ''consume'', ''favort'', ''foood'', ''eet'', ''hnt'',
      ''huntng'', ''meel'', ''diet'', ''seel'', ''prey'', ''consume'']"

definition skills_keywords :: "jsstring list" where
  "skills_keywords = map js
     [''special skills'', ''how do you survive'', ''what skills'', ''survival skills'',
      ''skill'', ''survive'', ''cold'', ''ability'', ''how'', ''can'', ''survival'',
      ''special'', ''help'', ''capabilities'', ''specil'', ''skils'', ''survive'',
      ''abilty'', ''hel'', ''capabilites'']"

definition problems_keywords :: "jsstring list" where
  "problems_keywords = map js
     [''biggest problem'', ''what problems'', ''what challenges'', ''problem'',
      ''challenge'', ''difficult'', ''worry'', ''concern'', ''issue'', ''trouble'',
      ''biggest'', ''hardest'', ''struggle'', ''problm'', ''chalenge'', ''difcult'',
      ''worr'', ''concer'', ''issu'', ''troubl'', ''hardst'', ''struggl'']"

definition message_keywords :: "jsstring list" where
  "message_keywords = map js
     [''one thing you want'', ''what do you want humans'', ''what should humans know'',
      ''message to humans'', ''know'', ''tell'', ''message'', ''human'', ''want'',
      ''understand'', ''say'', ''humans'', ''share'', ''mesage'', ''humans'', ''wan'',
      ''understan'', ''shar'']"

definition future_keywords :: "jsstring list" where
  "future_keywords = map js
     [''what do you hope'', ''what do you dream'', ''future arctic'', ''future'', ''hope'',
      ''dream'', ''wish'', ''tomorrow'', ''coming'', ''ahead'', ''looks like'',
      ''will be'', ''vision'', ''hop'', ''drem'', ''wish'', ''tomorow'', ''comng'',
      ''ahed'', ''visin'']"

definition math_keywords :: "jsstring list" where
  "math_keywords = map js
     [''math'', ''mathematics'', ''calculate'', ''calculation'', ''add'', ''subtract'',
      ''multiply'', ''divide'', ''plus'', ''minus'', ''times'', ''equals'', ''number'',
      ''numbers'', ''count'', ''counting'', ''sum'', ''total'', ''maths'', ''calcular'',
      ''sumar'', ''restar'', ''multiplicar'', ''dividir'', ''mas'', ''menos'', ''por'',
      ''igual'', ''numero'', ''numeros'', ''contar'', ''suma'', ''total'']"

definition cooking_keywords :: "jsstring list" where
  "cooking_keywords = map js
     [''cook'', ''cooking'', ''recipe'', ''food'', ''ingredients'', ''kitchen'', ''bake'',
      ''fry'', ''boil'', ''cocinar'', ''receta'', ''ingredientes'', ''cocina'',
      ''hornear'', ''freir'', ''hervir'', ''cocina'']"

definition weather_keywords :: "jsstring list" where
  "weather_keywords = map js
     [''weather'', ''climate'', ''temperature'', ''rain'', ''snow'', ''sunny'', ''cloudy'',
      ''windy'', ''clima'', ''temperatura'', ''lluvia'', ''nieve'', ''soleado'',
      ''nublado'', ''ventoso'']"

definition technology_keywords :: "jsstring list" where
  "technology_keywords = map js
     [''computer'', ''phone'', ''internet'', ''software'', ''app'', ''programming'',
      ''code'', ''computadora'', ''telefono'', ''programacion'', ''codigo'',
      ''aplicacion'']"

definition general_keywords :: "jsstring list" where
  "general_keywords = map js
     [''what is'', ''how do'', ''why'', ''when'', ''where'', ''que es'', ''como'',
      ''por que'', ''cuando'', ''donde'', ''explain'', ''tell me about'', ''explica'',
      ''cuentame sobre'']"

definition topicKeywords :: "(jsstring \<times> jsstring list) list" where
  "topicKeywords =
     [(js ''greeting'', greeting_keywords), (js ''name'', name_keywords),
      (js ''location'', location_keywords), (js ''food'', food_keywords),
      (js ''skills'', skills_keywords), (js ''problems'', problems_keywords),
      (js ''message'', message_keywords), (js ''future'', future_keywords),
      (js ''math'', math_keywords), (js ''cooking'', cooking_keywords),
      (js ''weather'', weather_keywords), (js ''technology'', technology_keywords),
      (js ''general'', general_keywords)]"

text \<open>
  \<open>keywords.sort((a, b) => b.length - a.length)\<close>: longest keyword first, keywords of equal
  length in the order they had (the sort of the runtime is stable). It sorts the array of
  the table in place, so the fuzzy pass goes through the sorted arrays too.
\<close>

definition sortedKeywords :: "jsstring list \<Rightarrow> jsstring list" where
  "sortedKeywords keywords = sort_key (\<lambda>k. - int (length k)) keywords"

text \<open>The first loop: the first topic one of whose keywords the input includes.\<close>

fun exact_pass :: "jsstring \<Rightarrow> (jsstring \<times> jsstring list) list \<Rightarrow> jsstring option" where
  "exact_pass input [] = None"
| "exact_pass input ((topic, keywords) # entries) =
     (if \<exists>keyword \<in> set (sortedKeywords keywords). includes_js input keyword
      then Some topic else exact_pass input entries)"

text \<open>The last loop: the first topic one of whose keywords is a fuzzy match of the input.\<close>

fun fuzzy_pass :: "jsstring \<Rightarrow> (jsstring \<times> jsstring list) list \<Rightarrow> jsstring option" where
  "fuzzy_pass input [] = None"
| "fuzzy_pass input ((topic, keywords) # entries) =
     (if \<exists>keyword \<in> set (sortedKeywords keywords). fuzzyMatch input keyword
      then Some topic else fuzzy_pass input entries)"

definition name_question :: "jsstring \<Rightarrow> bool" where
  "name_question input =
     (includes_js input (js ''what is your'') \<or> includes_js input (js ''whats your'') \<or>
      includes_js input (js ''what is ur'') \<or> includes_js input (js ''whats ur''))"

text \<open>\<open>detectTopic\<close> returns the name of a topic, or \<open>null\<close> (\<open>None\<close>).\<close>

definition detectTopic :: "jsstring \<Rightarrow> jsstring option" where
  "detectTopic input =
     (case exact_pass input topicKeywords of
        Some topic \<Rightarrow> Some topic
      | None \<Rightarrow>
          if name_question input then Some (js ''name'')
          else fuzzy_pass input topicKeywords)"

section \<open>blueprint-generator.js: splitIntoSentences\<close>

text \<open>
  The blueprint generator lower-cases with \<open>String.prototype.toLowerCase\<close> as well. Its
  functions take the lower-casing as the argument \<open>lc\<close>, so that what is proved of them
  for every text holds whatever the runtime does on the code units \<open>toLowerCase\<close> above
  does not cover.

  The class \<open>\s\<close>, which is also what \<open>trim\<close> removes: the white space and line
  terminator code points of ECMAScript.
\<close>

definition is_space :: "nat \<Rightarrow> bool" where
  "is_space c =
     (c \<in> set [9, 10, 11, 12, 13, 32, 160, 5760, 8232, 8233, 8239, 8287, 12288, 65279] \<or>
      (8192 \<le> c \<and> c \<le> 8202))"

text \<open>\<open>text.replace(/\s+/g, ' ')\<close>: every maximal run of white space becomes one space.\<close>

function collapse_spaces :: "jsstring \<Rightarrow> jsstring" where
  "collapse_spaces [] = []"
| "collapse_spaces (c # cs) =
     (if is_space c then 32 # collapse_spaces (dropWhile is_space cs)
      else c # collapse_spaces cs)"
  by pat_completeness auto
termination
  by (relation "measure length") (auto simp: less_Suc_eq_le length_dropWhile_le)

definition trim :: "jsstring \<Rightarrow> jsstring" where
  "trim s = rev (dropWhile is_space (rev (dropWhile is_space s)))"

text \<open>The class \<open>[.!?]\<close>.\<close>

definition is_stop :: "nat \<Rightarrow> bool" where
  "is_stop c = (c = 46 \<or> c = 33 \<or> c = 63)"

text \<open>
  \<open>normalized.match(/[^.!?]+[.!?]+|[^.!?]+$/g)\<close>, the list of all matches from left to
  right. Both alternatives begin with \<open>[^.!?]+\<close>, so nothing matches at a stop character
  and the search moves on by one. Elsewhere the greedy \<open>[^.!?]+\<close> takes the whole run of
  other characters; either stop characters follow and the first alternative matches the
  run and all of them, or the run ends the string and the second alternative matches the
  run.
\<close>

function sentence_matches :: "jsstring \<Rightarrow> jsstring list" where
  "sentence_matches [] = []"
| "sentence_matches (c # cs) =
     (if is_stop c then sentence_matches cs
      else let body = takeWhile (\<lambda>x. \<not> is_stop x) (c # cs);
               rest = dropWhile (\<lambda>x. \<not> is_stop x) (c # cs)
           in (body @ takeWhile is_stop rest) # sentence_matches (dropWhile is_stop rest))"
  by pat_completeness auto
termination
proof (relation "measure length")
  fix c :: nat and cs :: jsstring and body rest :: jsstring
  assume "\<not> is_stop c" and "rest = dropWhile (\<lambda>x. \<not> is_stop x) (c # cs)"
  then have "length (dropWhile is_stop rest) \<le> length cs"
    using length_dropWhile_le [of is_stop "dropWhile (\<lambda>x. \<not> is_stop x) cs"]
          length_dropWhile_le [of "\<lambda>x. \<not> is_stop x" cs]
    by simp
  then show "(dropWhile is_stop rest, c # cs) \<in> measure length" by simp
qed simp_all

text \<open>
  \<open>match\<close> gives \<open>null\<close> when nothing matches (a text of stop characters only); the
  source then returns the normalized text as the one sentence.
\<close>

definition splitIntoSentences :: "jsstring \<Rightarrow> jsstring list" where
  "splitIntoSentences text =
     (let normalized = trim (collapse_spaces text)
      in if normalized = [] then []
         else (case sentence_matches normalized of
                 [] \<Rightarrow> [normalized]
               | m # ms \<Rightarrow> filter (\<lambda>s. s \<noteq> []) (map trim (m # ms))))"

section \<open>blueprint-generator.js: detectSectionForText and buildSections\<close>

text \<open>\<open>this.keywords\<close>: an array of terms for each section, in the order of the object
  literal.\<close>

definition identity_terms :: "jsstring list" where
  "identity_terms = map js
     [''your name'', ''name'', ''who are you'', ''who are u'', ''who are'', ''introduce'',
      ''identity'', ''c'' @ [CHR 0xF3] @ ''mo te llamas'', ''como te llamas'', ''nombre'',
      ''qui'' @ [CHR 0xE9] @ ''n eres'', ''quien eres'', ''te llamas'']"

definition habitat_terms :: "jsstring list" where
  "habitat_terms = map js
     [''where do you live'', ''where are you'', ''where in the arctic'', ''where'',
      ''live'', ''home'', ''location'', ''habitat'', ''territory'', ''sea ice'',
      ''ice floes'', ''north'', ''arctic'', ''d'' @ [CHR 0xF3] @ ''nde vives'',
      ''donde vives'', ''vives'', ''hogar'', ''lugar'', ''h'' @ [CHR 0xE1] @ ''bitat'',
      ''habitat'', ''territorio'', [CHR 0xE1] @ ''rtico'', ''artico'', ''hielo'']"

definition diet_terms :: "jsstring list" where
  "diet_terms = map js
     [''what do you eat'', ''eat'', ''food'', ''diet'', ''meal'', ''hunt'', ''hunting'',
      ''prey'', ''seal'', ''seals'', ''blubber'', ''fish'',
      ''qu'' @ [CHR 0xE9] @ '' comes'', ''que comes'', ''comes'', ''comer'', ''comida'',
      ''dieta'', ''cazar'', ''caza'', ''presa'', ''presas'', ''foca'', ''focas'']"

definition skills_terms :: "jsstring list" where
  "skills_terms = map js
     [''skills'', ''special skills'', ''survive'', ''survival'', ''adapt'', ''adaptation'',
      ''adaptations'', ''ability'', ''abilities'', ''fur'', ''swim'', ''paws'', ''claws'',
      ''smell'', ''run'', ''fast'', ''strong'', ''habilidades'', ''especiales'',
      ''sobrevives'', ''sobrevivir'', ''adaptaciones'', ''adaptaci'' @ [CHR 0xF3] @ ''n'',
      ''adaptacion'', ''capacidad'', ''capacidades'', ''pelaje'', ''nadar'', ''patas'',
      ''garras'', ''olfato'', ''correr'']"

definition challenges_terms :: "jsstring list" where
  "challenges_terms = map js
     [''biggest problem'', ''what problems'', ''what challenges'', ''problem'',
      ''problems'', ''challenge'', ''challenges'', ''difficult'', ''concern'', ''issue'',
      ''trouble'', ''hardest'', ''struggle'', ''melting'', ''climate change'', ''warming'',
      ''ice is'', ''sea ice'', ''mayor problema'', ''problema'', ''problemas'',
      ''desaf'' @ [CHR 0xED] @ ''o'', ''desafios'', ''desaf'' @ [CHR 0xED] @ ''o'',
      ''desaf'' @ [CHR 0xED] @ ''os'', ''dificultad'', ''preocupaci'' @ [CHR 0xF3] @ ''n'',
      ''preocupaciones'', ''calentamiento'', ''cambio clim'' @ [CHR 0xE1] @ ''tico'',
      ''cambio climatico'', ''deshielo'', ''hielo'']"

definition message_terms :: "jsstring list" where
  "message_terms = map js
     [''message to humans'', ''what should humans know'', ''what do you want humans'',
      ''humans should'', ''tell humans'', ''message'', ''humans'', ''people should'',
      ''mensaje a los humanos'', ''mensaje para los humanos'', ''humanos deben'',
      ''qu'' @ [CHR 0xE9] @ '' quieres que los humanos'', ''que quieres que los humanos'',
      ''mensaje'', ''humanos'']"

definition future_terms :: "jsstring list" where
  "future_terms = map js
     [''what do you hope'', ''hope'', ''dream'', ''future'', ''vision'', ''wish'',
      ''tomorrow'', ''ahead'', ''futuro'', ''esperas'', ''esperanza'',
      ''sue'' @ [CHR 0xF1] @ ''as'', ''sue'' @ [CHR 0xF1] @ ''os'',
      ''sue'' @ [CHR 0xF1] @ ''os'', ''sue'' @ [CHR 0xF1] @ ''o'', ''deseas'', ''deseo'',
      ''ma'' @ [CHR 0xF1] @ ''ana'']"

definition section_terms :: "(jsstring \<times> jsstring list) list" where
  "section_terms =
     [(js ''identity'', identity_terms), (js ''habitat'', habitat_terms),
      (js ''diet'', diet_terms), (js ''skills'', skills_terms),
      (js ''challenges'', challenges_terms), (js ''message'', message_terms),
      (js ''future'', future_terms)]"

fun first_section :: "jsstring \<Rightarrow> (jsstring \<times> jsstring list) list \<Rightarrow> jsstring option" where
  "first_section textLower [] = None"
| "first_section textLower ((sec, terms) # entries) =
     (if \<exists>term \<in> set terms. includes_js textLower term then Some sec
      else first_section textLower entries)"

definition detectSectionForText :: "jsstring \<Rightarrow> jsstring option" where
  "detectSectionForText textLower = first_section textLower section_terms"

text \<open>
  A message of the history: \<open>{ role, content, timestamp }\<close>. A field is \<open>None\<close> when
  the object does not have it; an entry of the history is \<open>None\<close> when it is \<open>null\<close> or
  \<open>undefined\<close>.
\<close>

record message =
  role :: "jsstring option"
  content :: "jsstring option"
  timestamp :: "jsstring option"

text \<open>The result object of \<open>buildSections\<close>: its keys in order, each with its array.\<close>

type_synonym sections = "(jsstring \<times> jsstring list) list"

definition maxItemsPerSection :: nat where
  "maxItemsPerSection = 3"

text \<open>A \<open>Set\<close> keeps its members in the order they were added; \<open>add\<close> of a member it has
  leaves it as it is.\<close>

definition set_add :: "jsstring list \<Rightarrow> jsstring \<Rightarrow> jsstring list" where
  "set_add items x = (if x \<in> set items then items else items @ [x])"

definition empty_sections :: sections where
  "empty_sections = map (\<lambda>key. (js key, []))
     [''identity'', ''habitat'', ''diet'', ''skills'', ''challenges'', ''message'', ''future'']"

text \<open>\<open>m && (m.role === 'assistant' || m.role === 'bot')\<close>\<close>

definition assistant_authored :: "message option \<Rightarrow> bool" where
  "assistant_authored m =
     (case m of
        None \<Rightarrow> False
      | Some msg \<Rightarrow> role msg = Some (js ''assistant'') \<or> role msg = Some (js ''bot''))"

text \<open>The body of the inner loop, for one sentence.\<close>

definition place_sentence :: "(jsstring \<Rightarrow> jsstring) \<Rightarrow> sections \<Rightarrow> jsstring \<Rightarrow> sections" where
  "place_sentence lc secs sentence =
     (case detectSectionForText (lc sentence) of
        None \<Rightarrow> secs
      | Some sec \<Rightarrow>
          (case (if sec = [] then None else map_of secs sec) of
             None \<Rightarrow> secs
           | Some items \<Rightarrow>
               if length items < maxItemsPerSection
               then AList.update sec (set_add items sentence) secs
               else secs))"

text \<open>\<open>this.splitIntoSentences(msg.content || '')\<close>\<close>

definition message_sentences :: "message \<Rightarrow> jsstring list" where
  "message_sentences msg =
     splitIntoSentences (case content msg of None \<Rightarrow> [] | Some text \<Rightarrow> text)"

definition place_message :: "(jsstring \<Rightarrow> jsstring) \<Rightarrow> sections \<Rightarrow> message option \<Rightarrow> sections" where
  "place_message lc secs m =
     (case m of
        None \<Rightarrow> secs
      | Some msg \<Rightarrow> foldl (place_sentence lc) secs (message_sentences msg))"

definition buildSections :: "(jsstring \<Rightarrow> jsstring) \<Rightarrow> message option list \<Rightarrow> sections" where
  "buildSections lc messages =
     (let assistantMessages = filter assistant_authored messages
      in foldl (place_message lc) empty_sections assistantMessages)"

section \<open>blueprint-generator.js: the translation cache key\<close>

text \<open>
  \<open>JSON.stringify(sections)\<close> for an object whose values are arrays of strings. A string
  is written between double quotes; the quote, the backslash and the control characters
  are escaped, a surrogate that is not half of a pair is written as a \<open>\u\<close> escape, and
  every other code unit stands for itself.
\<close>

definition hex_digit :: "nat \<Rightarrow> nat" where
  "hex_digit d = (if d < 10 then 48 + d else 87 + d)"

definition unicode_escape :: "nat \<Rightarrow> jsstring" where
  "unicode_escape c =
     [92, 117, hex_digit (c div 4096 mod 16), hex_digit (c div 256 mod 16),
      hex_digit (c div 16 mod 16), hex_digit (c mod 16)]"

definition quote_unit :: "nat \<Rightarrow> jsstring" where
  "quote_unit c =
     (if c = 8 then [92, 98] else if c = 9 then [92, 116] else if c = 10 then [92, 110]
      else if c = 12 then [92, 102] else if c = 13 then [92, 114]
      else if c = 34 then [92, 34] else if c = 92 then [92, 92]
      else if c < 32 then unicode_escape c else [c])"

definition leading_surrogate :: "nat \<Rightarrow> bool" where
  "leading_surrogate c = (55296 \<le> c \<and> c \<le> 56319)"

definition trailing_surrogate :: "nat \<Rightarrow> bool" where
  "trailing_surrogate c = (56320 \<le> c \<and> c \<le> 57343)"

fun quote_units :: "jsstring \<Rightarrow> jsstring" where
  "quote_units [] = []"
| "quote_units [c] =
     (if leading_surrogate c \<or> trailing_surrogate c then unicode_escape c else quote_unit c)"
| "quote_units (c # d # cs) =
     (if leading_surrogate c \<and> trailing_surrogate d then c # d # quote_units cs
      else if leading_surrogate c \<or> trailing_surrogate c
           then unicode_escape c @ quote_units (d # cs)
      else quote_unit c @ quote_units (d # cs))"

definition quote_string :: "jsstring \<Rightarrow> jsstring" where
  "quote_string str = [34] @ quote_units str @ [34]"

fun comma_separated :: "jsstring list \<Rightarrow> jsstring" where
  "comma_separated [] = []"
| "comma_separated [x] = x"
| "comma_separated (x # y # ys) = x @ [44] @ comma_separated (y # ys)"

definition JSON_stringify :: "sections \<Rightarrow> jsstring" where
  "JSON_stringify secs =
     [123] @
     comma_separated
       (map (\<lambda>(key, items).
               quote_string key @ [58] @ [91] @ comma_separated (map quote_string items) @ [93])
          secs) @
     [125]"

section \<open>blueprint-generator.js: translateViaOpenRouter\<close>

text \<open>
  What \<open>JSON.parse\<close> can return. A number is held as the text \<open>String\<close> gives for it
  (that text determines the number); an object as its members, each name once. Property
  names are ordinary ones, as the seven section names are: \<open>__proto__\<close>, which an
  assignment treats in its own way, is outside the model.
\<close>

datatype jsvalue =
    JNull
  | JBool bool
  | JNum jsstring
  | JStr jsstring
  | JArr "jsvalue list"
  | JObj "(jsstring \<times> jsvalue) list"

datatype error = NetworkError | TranslationHttpError | SyntaxError | TypeError

text \<open>
  What the request to the provider comes to, up to \<open>JSON.parse(jsonText)\<close>: \<open>fetch\<close>
  rejects; or the status is not ok and the source throws
  \<open>Error('translation http error')\<close>; or the body or the text of the answer is not JSON
  and \<open>response.json()\<close> or \<open>JSON.parse\<close> throws; or \<open>JSON.parse\<close> returns a value.
\<close>

datatype provider_reply = Fetch_throws | Http_error | Malformed_json | Parsed jsvalue

definition truthy :: "jsvalue \<Rightarrow> bool" where
  "truthy v =
     (case v of
        JNull \<Rightarrow> False
      | JBool b \<Rightarrow> b
      | JNum n \<Rightarrow> n \<noteq> js ''0''
      | JStr str \<Rightarrow> str \<noteq> []
      | JArr _ \<Rightarrow> True
      | JObj _ \<Rightarrow> True)"

text \<open>
  \<open>parsed.sections || parsed\<close>. Reading a property of \<open>null\<close> throws a \<open>TypeError\<close>;
  a boolean, a number, a string and an array have no property \<open>sections\<close>.
\<close>

definition response_sections :: "jsvalue \<Rightarrow> error + jsvalue" where
  "response_sections parsed =
     (case parsed of
        JNull \<Rightarrow> Inl TypeError
      | JObj members \<Rightarrow>
          (case map_of members (js ''sections'') of
             None \<Rightarrow> Inr parsed
           | Some v \<Rightarrow> if truthy v then Inr v else Inr parsed)
      | _ \<Rightarrow> Inr parsed)"

text \<open>
  A property name is an index of an array when it is the decimal text of a number,
  without sign and without a leading zero.
\<close>

definition is_digit :: "nat \<Rightarrow> bool" where
  "is_digit c = (48 \<le> c \<and> c \<le> 57)"

definition array_index :: "jsstring \<Rightarrow> nat option" where
  "array_index key =
     (if key \<noteq> [] \<and> list_all is_digit key \<and> (hd key \<noteq> 48 \<or> length key = 1)
      then Some (foldl (\<lambda>n d. 10 * n + (d - 48)) 0 key) else None)"

text \<open>
  \<open>Array.isArray(out[key]) ? out[key] : \<dots>\<close>: the array under \<open>key\<close>, if \<open>out[key]\<close> is
  one. An object gives the member of that name; an array gives its element when the key
  is an index. Everything else \<open>out[key]\<close> can be (a number, a character of a string, a
  method of a prototype, \<open>undefined\<close>) is not an array.
\<close>

definition array_at :: "jsvalue \<Rightarrow> jsstring \<Rightarrow> jsvalue list option" where
  "array_at out key =
     (case out of
        JObj members \<Rightarrow>
          (case map_of members key of Some (JArr arr) \<Rightarrow> Some arr | _ \<Rightarrow> None)
      | JArr elements \<Rightarrow>
          (case array_index key of
             None \<Rightarrow> None
           | Some i \<Rightarrow>
               if i < length elements
               then (case elements ! i of JArr arr \<Rightarrow> Some arr | _ \<Rightarrow> None)
               else None)
      | _ \<Rightarrow> None)"

text \<open>
  \<open>String(x)\<close>. An array is joined with commas, \<open>null\<close> elements giving the empty
  string. An object gives \<open>[object Object]\<close>; when it has a member \<open>toString\<close> of its own
  (which is no function, coming from JSON) the conversion throws a \<open>TypeError\<close>.
\<close>

fun String_js :: "jsvalue \<Rightarrow> error + jsstring"
  and join_js :: "jsvalue list \<Rightarrow> error + jsstring" where
  "String_js JNull = Inr (js ''null'')"
| "String_js (JBool b) = Inr (if b then js ''true'' else js ''false'')"
| "String_js (JNum n) = Inr n"
| "String_js (JStr str) = Inr str"
| "String_js (JArr elements) = join_js elements"
| "String_js (JObj members) =
     (if js ''toString'' \<in> fst ` set members then Inl TypeError
      else Inr (js ''[object Object]''))"
| "join_js [] = Inr []"
| "join_js (x # xs) =
     (case (if x = JNull then Inr [] else String_js x) of
        Inl e \<Rightarrow> Inl e
      | Inr str \<Rightarrow>
          if xs = [] then Inr str
          else (case join_js xs of Inl e \<Rightarrow> Inl e | Inr rest \<Rightarrow> Inr (str @ [44] @ rest)))"

text \<open>\<open>arr.map(x => String(x))\<close>; the first conversion that throws ends the call.\<close>

fun map_String :: "jsvalue list \<Rightarrow> error + jsstring list" where
  "map_String [] = Inr []"
| "map_String (x # xs) =
     (case String_js x of
        Inl e \<Rightarrow> Inl e
      | Inr str \<Rightarrow> (case map_String xs of Inl e \<Rightarrow> Inl e | Inr strs \<Rightarrow> Inr (str # strs)))"

text \<open>
  The loop over \<open>Object.keys(sections)\<close>. The items of \<open>sections[key]\<close> are strings
  already, and \<open>String\<close> leaves a string as it is.
\<close>

fun translated_entries :: "jsvalue \<Rightarrow> sections \<Rightarrow> error + sections" where
  "translated_entries out [] = Inr []"
| "translated_entries out ((key, items) # entries) =
     (case (case array_at out key of Some arr \<Rightarrow> map_String arr | None \<Rightarrow> Inr items) of
        Inl e \<Rightarrow> Inl e
      | Inr strs \<Rightarrow>
          (case translated_entries out entries of
             Inl e \<Rightarrow> Inl e
           | Inr result \<Rightarrow> Inr ((key, strs) # result)))"

text \<open>
  \<open>translateViaOpenRouter(sections, lang, cfg)\<close>. The language and the configuration go
  into the request only; \<open>reply\<close> is what the request comes to.
\<close>

definition translateViaOpenRouter :: "sections \<Rightarrow> provider_reply \<Rightarrow> error + sections" where
  "translateViaOpenRouter secs reply =
     (case reply of
        Fetch_throws \<Rightarrow> Inl NetworkError
      | Http_error \<Rightarrow> Inl TranslationHttpError
      | Malformed_json \<Rightarrow> Inl SyntaxError
      | Parsed parsed \<Rightarrow>
          (case response_sections parsed of
             Inl e \<Rightarrow> Inl e
           | Inr out \<Rightarrow> translated_entries out secs))"

section \<open>blueprint-generator.js: maybeTranslateSections\<close>

text \<open>
  The state the function works on: the cache of the generator, the API key
  \<open>getAIConfig\<close> finds (\<open>None\<close> when there is no AI service or it has no key), what
  \<open>getCurrentLanguage\<close> returns, and the number of requests sent to the provider so far.
\<close>

record generator =
  translationCache :: "jsstring \<rightharpoonup> sections"
  apiKey :: "jsstring option"
  currentLanguage :: jsstring
  requests :: nat

definition totalCount :: "sections \<Rightarrow> nat" where
  "totalCount secs = foldl (\<lambda>n (key, arr). n + length arr) 0 secs"

text \<open>
  \<open>maybeTranslateSections(sections, targetLang)\<close>, with the reply the provider gives if
  it is asked. The function is \<open>async\<close> and waits for the provider at one place only;
  a call that starts when the one before has resolved sees the state that call left. The
  result is \<open>Inr\<close> of the returned sections, \<open>Inl\<close> would be an exception leaving the
  function.
\<close>

definition maybeTranslateSections ::
  "(jsstring \<Rightarrow> jsstring) \<Rightarrow> generator \<Rightarrow> sections \<Rightarrow> jsstring \<Rightarrow> provider_reply
     \<Rightarrow> (error + sections) \<times> generator" where
  "maybeTranslateSections lc g secs targetLang reply =
     (let lang = lc (if targetLang = [] then currentLanguage g else targetLang)
      in if totalCount secs = 0 then (Inr secs, g)
         else
           let cacheKey = JSON_stringify secs @ js ''::'' @ lang
           in (case translationCache g cacheKey of
                 Some cached \<Rightarrow> (Inr cached, g)
               | None \<Rightarrow>
                   if lang \<noteq> js ''en'' \<and> lang \<noteq> js ''es'' then (Inr secs, g)
                   else if apiKey g = None \<or> apiKey g = Some [] then (Inr secs, g)
                   else
                     (case translateViaOpenRouter secs reply of
                        Inr translated \<Rightarrow>
                          (Inr translated,
                           g\<lparr>translationCache := (translationCache g)(cacheKey \<mapsto> translated),
                             requests := requests g + 1\<rparr>)
                      | Inl e \<Rightarrow> (Inr secs, g\<lparr>requests := requests g + 1\<rparr>))))"


section \<open>Predicates used in the statements and proofs\<close>

text \<open>Every section is within the cap and has no sentence twice.\<close>

definition within_cap :: "sections \<Rightarrow> bool" where
  "within_cap secs = (\<forall>(key, items) \<in> set secs. length items \<le> maxItemsPerSection \<and> distinct items)"

definition extends :: "sections \<Rightarrow> sections \<Rightarrow> bool" where
  "extends secs secs' = list_all2 (\<lambda>(key, items) (key', items'). key = key' \<and> prefix items items') secs secs'"


text \<open>The sentences held by any section.\<close>

definition all_items :: "sections \<Rightarrow> jsstring set" where
  "all_items secs = (\<Union>(key, items) \<in> set secs. set items)"

text \<open>
  The sentence has been dealt with in its section: it is there, or the section was full.
\<close>

definition settled :: "jsstring \<Rightarrow> jsstring \<Rightarrow> sections \<Rightarrow> bool" where
  "settled sec s secs =
     (\<exists>items. map_of secs sec = Some items \<and>
        (s \<in> set items \<or> maxItemsPerSection \<le> length items))"

text \<open>An assistant message and a later one, for the concrete checks.\<close>

definition svalbard_message :: message where
  "svalbard_message =
     \<lparr>role = Some (js ''assistant''),
      content = Some (js ''I roam the sea ice near Svalbard. I hunt ringed seals.''),
      timestamp = None\<rparr>"

definition fish_message :: message where
  "fish_message =
     \<lparr>role = Some (js ''bot''), content = Some (js ''I eat fish too!''), timestamp = None\<rparr>"

definition user_message :: message where
  "user_message =
     \<lparr>role = Some (js ''user''), content = Some (js ''What do you eat?''), timestamp = None\<rparr>"

text \<open>The generator as its constructor leaves it, with the key and the language of the page.\<close>

definition new_generator :: "jsstring option \<Rightarrow> jsstring \<Rightarrow> generator" where
  "new_generator key lang =
     \<lparr>translationCache = Map.empty, apiKey = key, currentLanguage = lang, requests = 0\<rparr>"

text \<open>
  Calls of \<open>maybeTranslateSections\<close> made one after the other, each when the one before
  has resolved, each with its sections, its target language and the reply the provider
  would give: the results in order.
\<close>

fun localize_all ::
  "(jsstring \<Rightarrow> jsstring) \<Rightarrow> generator \<Rightarrow> (sections \<times> jsstring \<times> provider_reply) list
     \<Rightarrow> (error + sections) list" where
  "localize_all lc g [] = []"
| "localize_all lc g ((secs, targetLang, reply) # calls) =
     (case maybeTranslateSections lc g secs targetLang reply of
        (result, g') \<Rightarrow> result # localize_all lc g' calls)"

definition failing :: "provider_reply \<Rightarrow> bool" where
  "failing reply = (reply = Fetch_throws \<or> reply = Http_error \<or> reply = Malformed_json)"

text \<open>Two sections and an answer of the provider that has one of them, with one item more.\<close>

definition two_sections :: sections where
  "two_sections =
     [(js ''identity'', [js ''I am Polar.'']), (js ''habitat'', [js ''I live on the ice.''])]"

definition short_answer :: jsvalue where
  "short_answer = JObj [(js ''identity'', JArr [JStr (js ''Soy Polar.''), JStr (js ''Hola.'')])]"

text \<open>
  The language and the cache key \<open>maybeTranslateSections\<close> computes, and the condition
  under which it gets as far as asking the provider.
\<close>

definition target_language :: "(jsstring \<Rightarrow> jsstring) \<Rightarrow> generator \<Rightarrow> jsstring \<Rightarrow> jsstring" where
  "target_language lc g targetLang =
     lc (if targetLang = [] then currentLanguage g else targetLang)"

definition cache_key :: "(jsstring \<Rightarrow> jsstring) \<Rightarrow> generator \<Rightarrow> sections \<Rightarrow> jsstring \<Rightarrow> jsstring" where
  "cache_key lc g secs targetLang =
     JSON_stringify secs @ js ''::'' @ target_language lc g targetLang"

definition asks_provider :: "(jsstring \<Rightarrow> jsstring) \<Rightarrow> generator \<Rightarrow> sections \<Rightarrow> jsstring \<Rightarrow> bool" where
  "asks_provider lc g secs targetLang =
     (totalCount secs \<noteq> 0 \<and>
      translationCache g (cache_key lc g secs targetLang) = None \<and>
      (target_language lc g targetLang = js ''en'' \<or> target_language lc g targetLang = js ''es'') \<and>
      apiKey g \<noteq> None \<and> apiKey g \<noteq> Some [])"

text \<open>The two sentences of \<open>svalbard_message\<close>, and the sections they give.\<close>

definition roam_sentence :: jsstring where
  "roam_sentence = js ''I roam the sea ice near Svalbard.''"

definition hunt_sentence :: jsstring where
  "hunt_sentence = js ''I hunt ringed seals.''"

definition svalbard_sections :: sections where
  "svalbard_sections =
     [(js ''identity'', []), (js ''habitat'', [roam_sentence]), (js ''diet'', [hunt_sentence]),
      (js ''skills'', []), (js ''challenges'', []), (js ''message'', []), (js ''future'', [])]"

text \<open>What \<open>short_answer\<close> makes of \<open>two_sections\<close>.\<close>

definition mixed_sections :: sections where
  "mixed_sections =
     [(js ''identity'', [js ''Soy Polar.'', js ''Hola.'']),
      (js ''habitat'', [js ''I live on the ice.''])]"

definition keyed_generator :: generator where
  "keyed_generator = new_generator (Some (js ''sk-or-key'')) (js ''en'')"








section \<open>Evaluation\<close>

text \<open>
  Equations by which the simplifier computes with the definitions on concrete strings:
  the code units of the characters that occur, and the scans with the comparison of the
  first code unit put first.
\<close>

lemma unit_of_char:
  "of_char (CHR '' '') = (32::nat)"
  "of_char (CHR ''!'') = (33::nat)"
  "of_char (CHR 0x22) = (34::nat)"
  "of_char (CHR ''#'') = (35::nat)"
  "of_char (CHR ''$'') = (36::nat)"
  "of_char (CHR ''%'') = (37::nat)"
  "of_char (CHR ''&'') = (38::nat)"
  "of_char (CHR 0x27) = (39::nat)"
  "of_char (CHR ''('') = (40::nat)"
  "of_char (CHR '')'') = (41::nat)"
  "of_char (CHR ''*'') = (42::nat)"
  "of_char (CHR ''+'') = (43::nat)"
  "of_char (CHR '','') = (44::nat)"
  "of_char (CHR ''-'') = (45::nat)"
  "of_char (CHR ''.'') = (46::nat)"
  "of_char (CHR ''/'') = (47::nat)"
  "of_char (CHR ''0'') = (48::nat)"
  "of_char (CHR ''1'') = (49::nat)"
  "of_char (CHR ''2'') = (50::nat)"
  "of_char (CHR ''3'') = (51::nat)"
  "of_char (CHR ''4'') = (52::nat)"
  "of_char (CHR ''5'') = (53::nat)"
  "of_char (CHR ''6'') = (54::nat)"
  "of_char (CHR ''7'') = (55::nat)"
  "of_char (CHR ''8'') = (56::nat)"
  "of_char (CHR ''9'') = (57::nat)"
  "of_char (CHR '':'') = (58::nat)"
  "of_char (CHR '';'') = (59::nat)"
  "of_char (CHR ''<'') = (60::nat)"
  "of_char (CHR ''='') = (61::nat)"
  "of_char (CHR ''>'') = (62::nat)"
  "of_char (CHR ''?'') = (63::nat)"
  "of_char (CHR ''@'') = (64::nat)"
  "of_char (CHR ''A'') = (65::nat)"
  "of_char (CHR ''B'') = (66::nat)"
  "of_char (CHR ''C'') = (67::nat)"
  "of_char (CHR ''D'') = (68::nat)"
  "of_char (CHR ''E'') = (69::nat)"
  "of_char (CHR ''F'') = (70::nat)"
  "of_char (CHR ''G'') = (71::nat)"
  "of_char (CHR ''H'') = (72::nat)"
  "of_char (CHR ''I'') = (73::nat)"
  "of_char (CHR ''J'') = (74::nat)"
  "of_char (CHR ''K'') = (75::nat)"
  "of_char (CHR ''L'') = (76::nat)"
  "of_char (CHR ''M'') = (77::nat)"
  "of_char (CHR ''N'') = (78::nat)"
  "of_char (CHR ''O'') = (79::nat)"
  "of_char (CHR ''P'') = (80::nat)"
  "of_char (CHR ''Q'') = (81::nat)"
  "of_char (CHR ''R'') = (82::nat)"
  "of_char (CHR ''S'') = (83::nat)"
  "of_char (CHR ''T'') = (84::nat)"
  "of_char (CHR ''U'') = (85::nat)"
  "of_char (CHR ''V'') = (86::nat)"
  "of_char (CHR ''W'') = (87::nat)"
  "of_char (CHR ''X'') = (88::nat)"
  "of_char (CHR ''Y'') = (89::nat)"
  "of_char (CHR ''Z'') = (90::nat)"
  "of_char (CHR ''['') = (91::nat)"
  "of_char (CHR 0x5C) = (92::nat)"
  "of_char (CHR '']'') = (93::nat)"
  "of_char (CHR ''^'') = (94::nat)"
  "of_char (CHR ''_'') = (95::nat)"
  "of_char (CHR 0x60) = (96::nat)"
  "of_char (CHR ''a'') = (97::nat)"
  "of_char (CHR ''b'') = (98::nat)"
  "of_char (CHR ''c'') = (99::nat)"
  "of_char (CHR ''d'') = (100::nat)"
  "of_char (CHR ''e'') = (101::nat)"
  "of_char (CHR ''f'') = (102::nat)"
  "of_char (CHR ''g'') = (103::nat)"
  "of_char (CHR ''h'') = (104::nat)"
  "of_char (CHR ''i'') = (105::nat)"
  "of_char (CHR ''j'') = (106::nat)"
  "of_char (CHR ''k'') = (107::nat)"
  "of_char (CHR ''l'') = (108::nat)"
  "of_char (CHR ''m'') = (109::nat)"
  "of_char (CHR ''n'') = (110::nat)"
  "of_char (CHR ''o'') = (111::nat)"
  "of_char (CHR ''p'') = (112::nat)"
  "of_char (CHR ''q'') = (113::nat)"
  "of_char (CHR ''r'') = (114::nat)"
  "of_char (CHR ''s'') = (115::nat)"
  "of_char (CHR ''t'') = (116::nat)"
  "of_char (CHR ''u'') = (117::nat)"
  "of_char (CHR ''v'') = (118::nat)"
  "of_char (CHR ''w'') = (119::nat)"
  "of_char (CHR ''x'') = (120::nat)"
  "of_char (CHR ''y'') = (121::nat)"
  "of_char (CHR ''z'') = (122::nat)"
  "of_char (CHR ''{'') = (123::nat)"
  "of_char (CHR ''|'') = (124::nat)"
  "of_char (CHR ''}'') = (125::nat)"
  "of_char (CHR ''~'') = (126::nat)"
  "of_char (CHR 0xE1) = (225::nat)"
  "of_char (CHR 0xE9) = (233::nat)"
  "of_char (CHR 0xED) = (237::nat)"
  "of_char (CHR 0xF1) = (241::nat)"
  "of_char (CHR 0xF3) = (243::nat)"
  by simp_all

lemma js_Nil: "js [] = []"
  by (simp add: js_def)

lemma js_Cons: "js (c # cs) = of_char c # js cs"
  by (simp add: js_def)

lemmas js_eval = js_Nil js_Cons unit_of_char

declare of_char_Char [simp del]

lemma replace_typo_Cons_eval:
  "replace_typo (t # ts) corr prev (c # cs) =
     (if c = t
      then (if typo_matches (t # ts) prev (c # cs)
            then corr @ replace_typo (t # ts) corr (Some (last (t # ts)))
                          (drop (length (t # ts)) (c # cs))
            else c # replace_typo (t # ts) corr (Some c) cs)
      else c # replace_typo (t # ts) corr (Some c) cs)"
  by (simp add: typo_matches_def)

lemmas replace_typo_eval = replace_typo_Cons_eval replace_typo.simps(1)

declare replace_typo.simps [simp del]

lemmas preprocess_eval =
  preprocessMessage_def apply_corrections_def corrections_def toLowerCase_def lower_unit_def
  replace_typo_eval typo_matches_def word_boundary_def word_before_def word_after_def
  is_word_def

lemma set_sortedKeywords: "set (sortedKeywords ks) = set ks"
  by (simp add: sortedKeywords_def)

lemmas levenshtein_eval =
  levenshteinDistance_def levenshtein_rows_def upt_rec Let_def

lemmas fuzzy_eval = fuzzyMatch_def toLowerCase_def lower_unit_def levenshtein_eval

lemmas sentences_eval = splitIntoSentences_def trim_def is_space_def is_stop_def Let_def


section \<open>preprocessMessage, word by word\<close>


















section \<open>detectTopic: the exact pass\<close>



lemma detectTopic_exact: "exact_pass x topicKeywords = Some t \<Longrightarrow> detectTopic x = Some t"
  by (simp add: detectTopic_def)

section \<open>The keywords of the topics under preprocessMessage\<close>




































section \<open>detectTopic on concrete inputs\<close>


lemmas detect_eval = detectTopic_def topicKeywords_def set_sortedKeywords name_question_def

lemma wat_do_u_eet: "preprocessMessage (js ''wat do u eet?'') = js ''what do you eat?''"
  by (simp add: preprocess_eval js_eval)

lemma what_do_you_eat: "detectTopic (js ''what do you eat?'') = Some (js ''food'')"
  by (simp add: detect_eval greeting_keywords_def name_keywords_def location_keywords_def
        food_keywords_def js_eval)

lemma skils_distance: "levenshteinDistance (js ''skils'') (js ''skill'') = 1"
  by (simp add: levenshtein_eval js_eval)

lemma skils_fuzzyMatch: "fuzzyMatch (js ''skils'') (js ''skill'')"
  by (simp add: fuzzy_eval js_eval)

lemma skils_exact: "exact_pass (js ''skils'') topicKeywords = Some (js ''skills'')"
  by (simp add: detect_eval greeting_keywords_def name_keywords_def location_keywords_def
        food_keywords_def skills_keywords_def js_eval)

lemma skils_fuzzy: "fuzzy_pass (js ''skils'') topicKeywords = Some (js ''skills'')"
  by (simp add: detect_eval greeting_keywords_def name_keywords_def location_keywords_def
        food_keywords_def skills_keywords_def fuzzy_eval js_eval)

lemma skils_normalized: "preprocessMessage (js ''skils'') = js ''skills''"
  by (simp add: preprocess_eval js_eval)

lemma skills_classified: "detectTopic (js ''skills'') = Some (js ''skills'')"
  by (simp add: detect_eval greeting_keywords_def name_keywords_def location_keywords_def
        food_keywords_def skills_keywords_def js_eval)










section \<open>buildSections: invariants\<close>

lemma distinct_set_add: "distinct items \<Longrightarrow> distinct (set_add items x)"
  by (simp add: set_add_def)

lemma length_set_add: "length (set_add items x) \<le> Suc (length items)"
  by (simp add: set_add_def)

lemma prefix_set_add: "prefix items (set_add items x)"
  by (simp add: set_add_def)

lemma keys_update_present:
  "map_of secs sec = Some items \<Longrightarrow> map fst (AList.update sec v secs) = map fst secs"
  by (induction secs) (auto split: if_splits)

lemma set_update_subset: "set (AList.update sec v secs) \<subseteq> insert (sec, v) (set secs)"
  by (induction secs) auto

lemma extends_refl: "extends secs secs"
  by (simp add: extends_def list_all2_refl split_beta)

lemma extends_trans:
  assumes "extends a b" and "extends b c"
  shows "extends a c"
  using assms unfolding extends_def
  by (rule list_all2_trans [rotated]) (auto intro: prefix_order.trans)

lemma extends_update:
  "map_of secs sec = Some items \<Longrightarrow> prefix items v \<Longrightarrow> extends secs (AList.update sec v secs)"
proof (induction secs)
  case Nil
  then show ?case by simp
next
  case (Cons e secs)
  obtain k xs where e: "e = (k, xs)" by (cases e)
  show ?case
  proof (cases "k = sec")
    case True
    with Cons.prems e have "xs = items" by simp
    with True e Cons.prems(2) show ?thesis
      using extends_refl [of secs] by (simp add: extends_def)
  next
    case False
    with Cons e show ?thesis by (simp add: extends_def)
  qed
qed

lemma place_sentence_keys: "map fst (place_sentence lc secs s) = map fst secs"
  by (auto simp: place_sentence_def keys_update_present split: option.splits if_splits)

lemma place_sentence_within_cap:
  assumes "within_cap secs"
  shows "within_cap (place_sentence lc secs s)"
proof -
  have upd: "within_cap (AList.update sec (set_add items s) secs)"
    if "map_of secs sec = Some items" "length items < maxItemsPerSection" for sec items
  proof -
    from that(1) have "(sec, items) \<in> set secs" by (rule map_of_SomeD)
    with assms have "distinct items" by (auto simp: within_cap_def)
    then have "distinct (set_add items s)" by (rule distinct_set_add)
    moreover have "length (set_add items s) \<le> maxItemsPerSection"
      using that(2) length_set_add [of items s] by simp
    ultimately show ?thesis
      using assms set_update_subset [of sec "set_add items s" secs]
      by (auto simp: within_cap_def)
  qed
  show ?thesis
    using assms by (auto simp: place_sentence_def upd split: option.splits if_splits)
qed

lemma place_sentence_extends: "extends secs (place_sentence lc secs s)"
  by (auto simp: place_sentence_def extends_refl extends_update prefix_set_add
           split: option.splits if_splits)

lemma foldl_place_sentence_keys: "map fst (foldl (place_sentence lc) secs ss) = map fst secs"
  by (induction ss arbitrary: secs) (simp_all add: place_sentence_keys)

lemma foldl_place_sentence_within_cap:
  "within_cap secs \<Longrightarrow> within_cap (foldl (place_sentence lc) secs ss)"
  by (induction ss arbitrary: secs) (simp_all add: place_sentence_within_cap)

lemma foldl_place_sentence_extends: "extends secs (foldl (place_sentence lc) secs ss)"
proof (induction ss arbitrary: secs)
  case Nil
  show ?case by (simp add: extends_refl)
next
  case (Cons s ss)
  show ?case
    using place_sentence_extends [of secs lc s] Cons [of "place_sentence lc secs s"]
    by (auto intro: extends_trans)
qed

lemma place_message_keys: "map fst (place_message lc secs m) = map fst secs"
  by (simp add: place_message_def foldl_place_sentence_keys split: option.splits)

lemma place_message_within_cap: "within_cap secs \<Longrightarrow> within_cap (place_message lc secs m)"
  by (simp add: place_message_def foldl_place_sentence_within_cap split: option.splits)

lemma place_message_extends: "extends secs (place_message lc secs m)"
  by (simp add: place_message_def foldl_place_sentence_extends extends_refl split: option.splits)

lemma foldl_place_message_keys: "map fst (foldl (place_message lc) secs ms) = map fst secs"
  by (induction ms arbitrary: secs) (simp_all add: place_message_keys)

lemma foldl_place_message_within_cap:
  "within_cap secs \<Longrightarrow> within_cap (foldl (place_message lc) secs ms)"
  by (induction ms arbitrary: secs) (simp_all add: place_message_within_cap)

lemma foldl_place_message_extends: "extends secs (foldl (place_message lc) secs ms)"
proof (induction ms arbitrary: secs)
  case Nil
  show ?case by (simp add: extends_refl)
next
  case (Cons m ms)
  show ?case
    using place_message_extends [of secs lc m] Cons [of "place_message lc secs m"]
    by (auto intro: extends_trans)
qed

lemma within_cap_empty: "within_cap empty_sections"
  by (simp add: within_cap_def empty_sections_def)


section \<open>buildSections: whose sentences are used\<close>

lemma set_set_add: "set (set_add items x) = insert x (set items)"
  by (auto simp: set_add_def)

lemma all_items_update:
  assumes "map_of secs sec = Some items"
  shows "all_items (AList.update sec v secs) \<subseteq> set v \<union> all_items secs"
  using set_update_subset [of sec v secs] by (auto simp: all_items_def)

lemma all_items_place_sentence:
  "all_items (place_sentence lc secs s) \<subseteq> insert s (all_items secs)"
proof -
  have "all_items (AList.update sec (set_add items s) secs) \<subseteq> insert s (all_items secs)"
    if "map_of secs sec = Some items" for sec items
  proof -
    from that have "(sec, items) \<in> set secs" by (rule map_of_SomeD)
    then have "set items \<subseteq> all_items secs" by (auto simp: all_items_def)
    with all_items_update [OF that, of "set_add items s"] show ?thesis
      by (auto simp: set_set_add)
  qed
  then show ?thesis
    by (auto simp: place_sentence_def split: option.splits if_splits)
qed

lemma all_items_foldl_place_sentence:
  "all_items (foldl (place_sentence lc) secs ss) \<subseteq> all_items secs \<union> set ss"
proof (induction ss arbitrary: secs)
  case Nil
  show ?case by simp
next
  case (Cons s ss)
  show ?case
    using Cons [of "place_sentence lc secs s"] all_items_place_sentence [of lc secs s]
    by auto
qed

lemma all_items_place_message:
  "all_items (place_message lc secs m) \<subseteq>
     all_items secs \<union> (case m of None \<Rightarrow> {} | Some msg \<Rightarrow> set (message_sentences msg))"
  using all_items_foldl_place_sentence
  by (auto simp: place_message_def split: option.splits)

lemma all_items_foldl_place_message:
  "all_items (foldl (place_message lc) secs ms) \<subseteq>
     all_items secs \<union> (\<Union>msg \<in> {msg. Some msg \<in> set ms}. set (message_sentences msg))"
proof (induction ms arbitrary: secs)
  case Nil
  show ?case by simp
next
  case (Cons m ms)
  show ?case
  proof
    fix s
    assume "s \<in> all_items (foldl (place_message lc) secs (m # ms))"
    then have "s \<in> all_items (place_message lc secs m) \<or>
               s \<in> (\<Union>msg \<in> {msg. Some msg \<in> set ms}. set (message_sentences msg))"
      using Cons [of "place_message lc secs m"] by auto
    then show "s \<in> all_items secs \<union>
                 (\<Union>msg \<in> {msg. Some msg \<in> set (m # ms)}. set (message_sentences msg))"
      using all_items_place_message [of lc secs m]
      by (cases m) auto
  qed
qed

lemma all_items_empty: "all_items empty_sections = {}"
  by (simp add: all_items_def empty_sections_def)

lemma items_from_assistant:
  assumes "(key, items) \<in> set (buildSections lc messages)" and "s \<in> set items"
  shows "\<exists>msg. Some msg \<in> set messages \<and>
           (role msg = Some (js ''assistant'') \<or> role msg = Some (js ''bot'')) \<and>
           s \<in> set (message_sentences msg)"
proof -
  from assms have "s \<in> all_items (buildSections lc messages)"
    by (auto simp: all_items_def)
  then have "s \<in> (\<Union>msg \<in> {msg. Some msg \<in> set (filter assistant_authored messages)}.
                     set (message_sentences msg))"
    using all_items_foldl_place_message
            [of lc empty_sections "filter assistant_authored messages"]
    by (auto simp: buildSections_def all_items_empty)
  then obtain msg where "Some msg \<in> set messages" "assistant_authored (Some msg)"
      "s \<in> set (message_sentences msg)"
    by auto
  then show ?thesis by (auto simp: assistant_authored_def)
qed

lemma section_terms_keys: "map fst section_terms = map fst empty_sections"
  by (simp add: section_terms_def empty_sections_def)

lemma first_section_key: "first_section t entries = Some sec \<Longrightarrow> sec \<in> fst ` set entries"
  by (induction entries) (auto split: if_splits)

lemma detected_section_key:
  assumes "detectSectionForText t = Some sec"
  shows "sec \<in> fst ` set empty_sections" and "sec \<noteq> []"
proof -
  from assms have "sec \<in> set (map fst section_terms)"
    using first_section_key [of t section_terms sec] by (simp add: detectSectionForText_def)
  then have mem: "sec \<in> set (map fst empty_sections)" by (simp only: section_terms_keys)
  then show "sec \<in> fst ` set empty_sections" by simp
  from mem show "sec \<noteq> []" by (auto simp: empty_sections_def js_def)
qed

lemma place_sentence_settles:
  assumes "detectSectionForText (lc s) = Some sec" and "sec \<in> fst ` set secs" and "sec \<noteq> []"
  shows "settled sec s (place_sentence lc secs s)"
proof -
  from assms(2) obtain items where items: "map_of secs sec = Some items"
    by (metis domD dom_map_of_conv_image_fst)
  show ?thesis
  proof (cases "length items < maxItemsPerSection")
    case True
    then have "place_sentence lc secs s = AList.update sec (set_add items s) secs"
      using assms items by (simp add: place_sentence_def)
    then show ?thesis
      by (simp add: settled_def update_conv' set_set_add)
  next
    case False
    then have "place_sentence lc secs s = secs"
      using assms items by (simp add: place_sentence_def)
    with items False show ?thesis by (auto simp: settled_def)
  qed
qed

lemma extends_map_of:
  assumes "extends secs secs'" and "map_of secs sec = Some items"
  shows "\<exists>items'. map_of secs' sec = Some items' \<and> prefix items items'"
  using assms unfolding extends_def
  by (induction secs secs' rule: list_all2_induct) (auto split: if_splits)

lemma extends_settled:
  assumes "extends secs secs'" and "settled sec s secs"
  shows "settled sec s secs'"
proof -
  from assms(2) obtain items where items: "map_of secs sec = Some items"
      and ok: "s \<in> set items \<or> maxItemsPerSection \<le> length items"
    by (auto simp: settled_def)
  from extends_map_of [OF assms(1) items] obtain items'
    where items': "map_of secs' sec = Some items'" and p: "prefix items items'" by blast
  from p have "set items \<subseteq> set items'" and "length items \<le> length items'"
    by (auto simp: prefix_def)
  with ok items' show ?thesis by (auto simp: settled_def)
qed

lemma foldl_place_sentence_settles:
  assumes "s \<in> set ss" and "detectSectionForText (lc s) = Some sec"
    and "map fst secs = map fst empty_sections"
  shows "settled sec s (foldl (place_sentence lc) secs ss)"
proof -
  from assms(1) obtain ss1 ss2 where ss: "ss = ss1 @ s # ss2" by (auto dest: split_list)
  let ?before = "foldl (place_sentence lc) secs ss1"
  have "map fst ?before = map fst empty_sections"
    by (simp add: foldl_place_sentence_keys assms(3))
  then have "fst ` set ?before = fst ` set empty_sections"
    by (metis list.set_map)
  then have "settled sec s (place_sentence lc ?before s)"
    using detected_section_key [OF assms(2)] assms(2) by (intro place_sentence_settles) auto
  then show ?thesis
    using foldl_place_sentence_extends [of "place_sentence lc ?before s" lc ss2]
    by (auto simp: ss intro: extends_settled)
qed

lemma assistant_sentence_settled:
  assumes "Some msg \<in> set messages"
    and "role msg = Some (js ''assistant'') \<or> role msg = Some (js ''bot'')"
    and "s \<in> set (message_sentences msg)"
    and "detectSectionForText (lc s) = Some sec"
  shows "settled sec s (buildSections lc messages)"
proof -
  let ?ms = "filter assistant_authored messages"
  from assms(1,2) have "Some msg \<in> set ?ms" by (auto simp: assistant_authored_def)
  then obtain ms1 ms2 where ms: "?ms = ms1 @ Some msg # ms2" by (auto dest: split_list)
  let ?before = "foldl (place_message lc) empty_sections ms1"
  have "map fst ?before = map fst empty_sections" by (simp add: foldl_place_message_keys)
  then have "settled sec s (place_message lc ?before (Some msg))"
    using assms(3,4) by (simp add: place_message_def foldl_place_sentence_settles)
  then have "settled sec s (foldl (place_message lc) (place_message lc ?before (Some msg)) ms2)"
    using foldl_place_message_extends by (rule extends_settled [rotated])
  then show ?thesis by (simp add: buildSections_def ms)
qed

lemma buildSections_drop_other:
  assumes "\<not> assistant_authored m"
  shows "buildSections lc (before @ m # after) = buildSections lc (before @ after)"
  using assms by (simp add: buildSections_def)


section \<open>splitIntoSentences: the shape of the sentences\<close>















section \<open>maybeTranslateSections and translateViaOpenRouter: the paths through the code\<close>



lemma failing_translate: "failing reply \<Longrightarrow> \<exists>e. translateViaOpenRouter secs reply = Inl e"
  by (auto simp: failing_def translateViaOpenRouter_def)

lemma maybeTranslateSections_failing:
  assumes "translationCache g = Map.empty" and "failing reply"
  shows "fst (maybeTranslateSections lc g secs targetLang reply) = Inr secs"
    and "translationCache (snd (maybeTranslateSections lc g secs targetLang reply)) = Map.empty"
  using assms failing_translate [OF assms(2), of secs]
  by (auto simp: maybeTranslateSections_def Let_def)

lemma maybeTranslateSections_hit:
  assumes "totalCount secs \<noteq> 0"
    and "translationCache g (cache_key lc g secs targetLang) = Some cached"
  shows "maybeTranslateSections lc g secs targetLang reply = (Inr cached, g)"
  using assms
  unfolding maybeTranslateSections_def cache_key_def target_language_def Let_def
  by simp

lemma maybeTranslateSections_asks:
  assumes "asks_provider lc g secs targetLang"
  shows "maybeTranslateSections lc g secs targetLang reply =
     (case translateViaOpenRouter secs reply of
        Inr translated \<Rightarrow>
          (Inr translated,
           g\<lparr>translationCache :=
                (translationCache g)(cache_key lc g secs targetLang \<mapsto> translated),
             requests := requests g + 1\<rparr>)
      | Inl e \<Rightarrow> (Inr secs, g\<lparr>requests := requests g + 1\<rparr>))"
  using assms
  unfolding maybeTranslateSections_def asks_provider_def cache_key_def target_language_def Let_def
  by (auto split: sum.splits)

lemma maybeTranslateSections_quiet:
  assumes "\<not> asks_provider lc g secs targetLang"
  shows "maybeTranslateSections lc g secs targetLang reply =
     (case (if totalCount secs = 0 then None
            else translationCache g (cache_key lc g secs targetLang)) of
        Some cached \<Rightarrow> (Inr cached, g)
      | None \<Rightarrow> (Inr secs, g))"
  using assms
  unfolding maybeTranslateSections_def asks_provider_def cache_key_def target_language_def Let_def
  by (auto split: option.splits)


section \<open>Concrete runs\<close>

lemma svalbard_sentences: "message_sentences svalbard_message = [roam_sentence, hunt_sentence]"
  by (simp add: message_sentences_def svalbard_message_def roam_sentence_def hunt_sentence_def
        sentences_eval js_eval)

lemma roam_section: "detectSectionForText (toLowerCase roam_sentence) = Some (js ''habitat'')"
  by (simp add: detectSectionForText_def section_terms_def identity_terms_def
        habitat_terms_def roam_sentence_def toLowerCase_def lower_unit_def js_eval)

lemma hunt_section: "detectSectionForText (toLowerCase hunt_sentence) = Some (js ''diet'')"
  by (simp add: detectSectionForText_def section_terms_def identity_terms_def
        habitat_terms_def diet_terms_def hunt_sentence_def toLowerCase_def lower_unit_def js_eval)

lemma sentence_literals:
  "roam_sentence \<noteq> hunt_sentence" "js ''habitat'' \<noteq> []" "js ''diet'' \<noteq> []"
  by (simp_all add: roam_sentence_def hunt_sentence_def js_eval)

lemma svalbard_built: "buildSections toLowerCase [Some svalbard_message] = svalbard_sections"
proof -
  have a: "assistant_authored (Some svalbard_message)"
    by (simp add: assistant_authored_def svalbard_message_def)
  have "place_sentence toLowerCase empty_sections roam_sentence =
          [(js ''identity'', []), (js ''habitat'', [roam_sentence]), (js ''diet'', []),
           (js ''skills'', []), (js ''challenges'', []), (js ''message'', []),
           (js ''future'', [])]"
    by (simp add: place_sentence_def roam_section empty_sections_def set_add_def
          maxItemsPerSection_def js_eval)
  then have "foldl (place_sentence toLowerCase) empty_sections [roam_sentence, hunt_sentence] =
          svalbard_sections"
    by (simp add: place_sentence_def hunt_section svalbard_sections_def set_add_def
          maxItemsPerSection_def js_eval)
  with a show ?thesis
    by (simp add: buildSections_def place_message_def svalbard_sentences)
qed

lemma user_not_assistant: "\<not> assistant_authored (Some user_message)"
  by (simp add: assistant_authored_def user_message_def js_eval)

lemma short_answer_translated:
  "translateViaOpenRouter two_sections (Parsed short_answer) = Inr mixed_sections"
  by (simp add: translateViaOpenRouter_def response_sections_def array_at_def two_sections_def
        short_answer_def mixed_sections_def js_eval)

lemma two_sections_asked: "asks_provider toLowerCase keyed_generator two_sections (js ''es'')"
  by (simp add: asks_provider_def keyed_generator_def new_generator_def totalCount_def
        two_sections_def target_language_def toLowerCase_def lower_unit_def js_eval)

lemma short_answer_localized:
  "maybeTranslateSections toLowerCase keyed_generator two_sections (js ''es'') (Parsed short_answer) =
     (Inr mixed_sections,
      keyed_generator
        \<lparr>translationCache :=
           (translationCache keyed_generator)
             (cache_key toLowerCase keyed_generator two_sections (js ''es'') \<mapsto> mixed_sections),
         requests := requests keyed_generator + 1\<rparr>)"
  by (simp add: maybeTranslateSections_asks [OF two_sections_asked] short_answer_translated)



section \<open>The claims\<close>

subsection \<open>Sections built from the history\<close>



text \<open>
  Claim C5. For every history and every extension of it by later messages, each section
  of the first result is a prefix of the same section of the second: building again after
  new messages only appends to a section, up to the cap.
\<close>

theorem buildSections_monotone:
  "list_all2 (\<lambda>(key, items) (key', items'). key = key' \<and> prefix items items')
     (buildSections lc messages) (buildSections lc (messages @ later))"
  using foldl_place_message_extends
    [of "foldl (place_message lc) empty_sections (filter assistant_authored messages)" lc
        "filter assistant_authored later"]
  by (simp add: buildSections_def extends_def)

text \<open>
  Claim C10. A message gives sentences to the sections if and only if its role is
  \<open>assistant\<close> or \<open>bot\<close>. Every item of a section is a sentence of such a message;
  every sentence of such a message that has a section is in it, unless the section was
  full; and an entry of any other kind (another role, no role, \<open>null\<close>) can be left out
  of the history without any change of the result.
\<close>

theorem buildSections_assistant_only:
  "(\<forall>key items s. (key, items) \<in> set (buildSections lc messages) \<longrightarrow> s \<in> set items \<longrightarrow>
      (\<exists>msg. Some msg \<in> set messages \<and>
         (role msg = Some (js ''assistant'') \<or> role msg = Some (js ''bot'')) \<and>
         s \<in> set (message_sentences msg))) \<and>
   (\<forall>msg s sec. Some msg \<in> set messages \<longrightarrow>
      (role msg = Some (js ''assistant'') \<or> role msg = Some (js ''bot'')) \<longrightarrow>
      s \<in> set (message_sentences msg) \<longrightarrow> detectSectionForText (lc s) = Some sec \<longrightarrow>
      (\<exists>items. (sec, items) \<in> set (buildSections lc messages) \<and>
         (s \<in> set items \<or> length items = 3))) \<and>
   (\<forall>before m after. \<not> assistant_authored m \<longrightarrow>
      buildSections lc (before @ m # after) = buildSections lc (before @ after))"
proof (intro conjI allI impI)
  fix key items s
  assume "(key, items) \<in> set (buildSections lc messages)" and "s \<in> set items"
  then show "\<exists>msg. Some msg \<in> set messages \<and>
         (role msg = Some (js ''assistant'') \<or> role msg = Some (js ''bot'')) \<and>
         s \<in> set (message_sentences msg)"
    by (rule items_from_assistant)
next
  fix msg s sec
  assume "Some msg \<in> set messages"
    and "role msg = Some (js ''assistant'') \<or> role msg = Some (js ''bot'')"
    and "s \<in> set (message_sentences msg)" and "detectSectionForText (lc s) = Some sec"
  then have "settled sec s (buildSections lc messages)"
    by (rule assistant_sentence_settled)
  then obtain items where items: "map_of (buildSections lc messages) sec = Some items"
      and ok: "s \<in> set items \<or> maxItemsPerSection \<le> length items"
    by (auto simp: settled_def)
  from items have mem: "(sec, items) \<in> set (buildSections lc messages)"
    by (rule map_of_SomeD)
  have "within_cap (buildSections lc messages)"
    by (simp add: buildSections_def foldl_place_message_within_cap within_cap_empty)
  with mem have "length items \<le> maxItemsPerSection" by (auto simp: within_cap_def)
  with ok mem show "\<exists>items. (sec, items) \<in> set (buildSections lc messages) \<and>
         (s \<in> set items \<or> length items = 3)"
    by (auto simp: maxItemsPerSection_def)
next
  fix before m after
  assume "\<not> assistant_authored m"
  then show "buildSections lc (before @ m # after) = buildSections lc (before @ after)"
    by (rule buildSections_drop_other)
qed

text \<open>The theorem at a history of a user message and \<open>svalbard_message\<close>.\<close>

theorem buildSections_assistant_only_witness:
  "(js ''diet'', [hunt_sentence]) \<in>
      set (buildSections toLowerCase [Some user_message, Some svalbard_message]) \<and>
   hunt_sentence \<in> set [hunt_sentence] \<and>
   (\<exists>msg. Some msg \<in> set [Some user_message, Some svalbard_message] \<and>
      (role msg = Some (js ''assistant'') \<or> role msg = Some (js ''bot'')) \<and>
      hunt_sentence \<in> set (message_sentences msg)) \<and>
   Some svalbard_message \<in> set [Some user_message, Some svalbard_message] \<and>
   role svalbard_message = Some (js ''assistant'') \<and>
   roam_sentence \<in> set (message_sentences svalbard_message) \<and>
   detectSectionForText (toLowerCase roam_sentence) = Some (js ''habitat'') \<and>
   (\<exists>items. (js ''habitat'', items) \<in>
        set (buildSections toLowerCase [Some user_message, Some svalbard_message]) \<and>
      (roam_sentence \<in> set items \<or> length items = 3)) \<and>
   \<not> assistant_authored (Some user_message) \<and>
   buildSections toLowerCase ([] @ Some user_message # [Some svalbard_message]) =
     buildSections toLowerCase ([] @ [Some svalbard_message])"
proof -
  note all = buildSections_assistant_only
    [of toLowerCase "[Some user_message, Some svalbard_message]"]
  have built: "buildSections toLowerCase [Some user_message, Some svalbard_message] =
      svalbard_sections"
    using svalbard_built user_not_assistant by (simp add: buildSections_def)
  have diet: "(js ''diet'', [hunt_sentence]) \<in>
      set (buildSections toLowerCase [Some user_message, Some svalbard_message])"
    by (simp add: built svalbard_sections_def)
  have "hunt_sentence \<in> set [hunt_sentence]" by simp
  with all diet
  have from_assistant: "\<exists>msg. Some msg \<in> set [Some user_message, Some svalbard_message] \<and>
      (role msg = Some (js ''assistant'') \<or> role msg = Some (js ''bot'')) \<and>
      hunt_sentence \<in> set (message_sentences msg)"
    by blast
  have msg: "Some svalbard_message \<in> set [Some user_message, Some svalbard_message]"
    and role: "role svalbard_message = Some (js ''assistant'')"
    and sentence: "roam_sentence \<in> set (message_sentences svalbard_message)"
    by (simp_all add: svalbard_sentences) (simp add: svalbard_message_def)
  with all roam_section
  have placed: "\<exists>items. (js ''habitat'', items) \<in>
        set (buildSections toLowerCase [Some user_message, Some svalbard_message]) \<and>
      (roam_sentence \<in> set items \<or> length items = 3)"
    by blast
  from all user_not_assistant
  have "buildSections toLowerCase ([] @ Some user_message # [Some svalbard_message]) =
     buildSections toLowerCase ([] @ [Some svalbard_message])"
    by blast
  with diet from_assistant msg role sentence roam_section placed user_not_assistant
  show ?thesis by simp
qed

subsection \<open>Sentences\<close>



subsection \<open>Translation of the sections\<close>

text \<open>
  Claim C4. With a provider that always fails (\<open>fetch\<close> throws, the status is an HTTP
  error, or the answer is not JSON), \<open>maybeTranslateSections\<close> returns the sections it
  was given and lets no exception out: from a cache that is empty, as the constructor
  leaves it, every call of a series of calls returns its own sections, whatever they and
  the target languages are.
\<close>

theorem localize_fail_open:
  assumes "translationCache g = Map.empty"
    and "\<forall>(secs, targetLang, reply) \<in> set calls. failing reply"
  shows "localize_all lc g calls = map (\<lambda>(secs, targetLang, reply). Inr secs) calls"
  using assms
proof (induction calls arbitrary: g)
  case Nil
  show ?case by simp
next
  case (Cons call calls)
  obtain secs targetLang reply where call: "call = (secs, targetLang, reply)"
    by (cases call)
  with Cons.prems(2) have f: "failing reply" by simp
  obtain result g' where step: "maybeTranslateSections lc g secs targetLang reply = (result, g')"
    by (cases "maybeTranslateSections lc g secs targetLang reply")
  with maybeTranslateSections_failing [OF Cons.prems(1) f, of lc secs targetLang]
  have "result = Inr secs" and "translationCache g' = Map.empty" by simp_all
  with Cons.IH [of g'] Cons.prems(2) call step show ?case by simp
qed

text \<open>The theorem at three calls for \<open>two_sections\<close>, one for each kind of failure.\<close>

theorem localize_fail_open_witness:
  "translationCache keyed_generator = Map.empty \<and>
   failing Fetch_throws \<and> failing Http_error \<and> failing Malformed_json \<and>
   localize_all toLowerCase keyed_generator
     [(two_sections, js ''es'', Fetch_throws), (two_sections, js ''ES'', Http_error),
      (two_sections, js ''en'', Malformed_json)] =
     [Inr two_sections, Inr two_sections, Inr two_sections]"
proof -
  have empty: "translationCache keyed_generator = Map.empty"
    by (simp add: keyed_generator_def new_generator_def)
  have fails: "failing Fetch_throws" "failing Http_error" "failing Malformed_json"
    by (simp_all add: failing_def)
  then have "\<forall>(secs, targetLang, reply) \<in>
      set [(two_sections, js ''es'', Fetch_throws), (two_sections, js ''ES'', Http_error),
           (two_sections, js ''en'', Malformed_json)]. failing reply"
    by simp
  from localize_fail_open [OF empty this, of toLowerCase] empty fails
  show ?thesis by simp
qed

text \<open>
  Claim C6. When \<open>maybeTranslateSections\<close> is called twice with the same sections and
  language, the second call after the first has resolved with the provider's answer
  translated without an exception (or without the provider being asked), the second call
  returns what the first returned and the provider is asked at most once in all; where
  the first call did ask, the second asks no more and returns the translation the first
  one stored.
\<close>

theorem localize_cached:
  assumes first: "maybeTranslateSections lc g secs targetLang reply1 = (result1, g1)"
    and ok: "\<forall>e. translateViaOpenRouter secs reply1 \<noteq> Inl e"
    and second: "maybeTranslateSections lc g1 secs targetLang reply2 = (result2, g2)"
  shows "result2 = result1 \<and> requests g2 \<le> requests g + 1 \<and>
         (requests g1 = requests g + 1 \<longrightarrow>
            requests g2 = requests g1 \<and> translateViaOpenRouter secs reply1 = result1)"
proof -
  from ok obtain translated where t: "translateViaOpenRouter secs reply1 = Inr translated"
    by (cases "translateViaOpenRouter secs reply1") auto
  show ?thesis
  proof (cases "asks_provider lc g secs targetLang")
    case True
    with first t
    have g1: "g1 = g\<lparr>translationCache :=
                       (translationCache g)(cache_key lc g secs targetLang \<mapsto> translated),
                     requests := requests g + 1\<rparr>"
        and r1: "result1 = Inr translated"
      by (simp_all add: maybeTranslateSections_asks)
    from g1 have "translationCache g1 (cache_key lc g1 secs targetLang) = Some translated"
      by (simp add: cache_key_def target_language_def)
    moreover from True have "totalCount secs \<noteq> 0" by (simp add: asks_provider_def)
    ultimately have "maybeTranslateSections lc g1 secs targetLang reply2 = (Inr translated, g1)"
      by (rule maybeTranslateSections_hit [rotated])
    with second have "result2 = Inr translated" and "g2 = g1" by simp_all
    with g1 r1 t show ?thesis by simp
  next
    case False
    from first have same: "g1 = g"
      by (auto simp: maybeTranslateSections_quiet [OF False] split: option.splits if_splits)
    with first second have "(result2, g2) = (result1, g1)"
      by (simp add: maybeTranslateSections_quiet [OF False])
    with same show ?thesis by simp
  qed
qed

text \<open>
  The theorem at \<open>two_sections\<close> and Spanish: the first call gets \<open>short_answer\<close>, the
  second would get a failure but does not ask.
\<close>

theorem localize_cached_witness:
  "maybeTranslateSections toLowerCase keyed_generator two_sections (js ''es'')
      (Parsed short_answer) =
     (Inr mixed_sections,
      keyed_generator
        \<lparr>translationCache :=
           (translationCache keyed_generator)
             (cache_key toLowerCase keyed_generator two_sections (js ''es'') \<mapsto> mixed_sections),
         requests := requests keyed_generator + 1\<rparr>) \<and>
   translateViaOpenRouter two_sections (Parsed short_answer) = Inr mixed_sections \<and>
   fst (maybeTranslateSections toLowerCase
          (snd (maybeTranslateSections toLowerCase keyed_generator two_sections (js ''es'')
                  (Parsed short_answer)))
          two_sections (js ''es'') Fetch_throws) = Inr mixed_sections \<and>
   requests (snd (maybeTranslateSections toLowerCase
          (snd (maybeTranslateSections toLowerCase keyed_generator two_sections (js ''es'')
                  (Parsed short_answer)))
          two_sections (js ''es'') Fetch_throws)) = 1"
proof -
  let ?g1 = "snd (maybeTranslateSections toLowerCase keyed_generator two_sections (js ''es'')
                    (Parsed short_answer))"
  let ?second = "maybeTranslateSections toLowerCase ?g1 two_sections (js ''es'') Fetch_throws"
  have first: "maybeTranslateSections toLowerCase keyed_generator two_sections (js ''es'')
      (Parsed short_answer) = (Inr mixed_sections, ?g1)"
    by (simp add: short_answer_localized)
  have ok: "\<forall>e. translateViaOpenRouter two_sections (Parsed short_answer) \<noteq> Inl e"
    by (simp add: short_answer_translated)
  have second: "?second = (fst ?second, snd ?second)" by simp
  have asked: "requests ?g1 = requests keyed_generator + 1"
    by (simp add: short_answer_localized)
  have zero: "requests keyed_generator = 0"
    by (simp add: keyed_generator_def new_generator_def)
  from localize_cached [OF first ok second] asked zero
  have "fst ?second = Inr mixed_sections" and "requests (snd ?second) = 1" by simp_all
  with short_answer_localized short_answer_translated show ?thesis by simp
qed





subsection \<open>Topics\<close>

text \<open>
  Claim C8. \<open>preprocessMessage\<close> turns \<open>"wat do u eet?"\<close> into \<open>"what do you eat?"\<close>,
  and \<open>detectTopic\<close> returns for that string the topic of diet and food, which the code
  names \<open>food\<close>.
\<close>

theorem wat_do_u_eet_is_food:
  "preprocessMessage (js ''wat do u eet?'') = js ''what do you eat?'' \<and>
   detectTopic (js ''what do you eat?'') = Some (js ''food'') \<and>
   detectTopic (preprocessMessage (js ''wat do u eet?'')) = Some (js ''food'')"
  by (simp only: wat_do_u_eet what_do_you_eat simp_thms)

text \<open>
  Claim C9. For the input \<open>"skils"\<close> and the keyword \<open>"skill"\<close> the Levenshtein distance
  is \<open>1\<close>, the similarity \<open>1 - 1/5 = 0.8\<close> is at least \<open>0.6\<close>, \<open>fuzzyMatch\<close> succeeds,
  and the input is classified as the topic \<open>skills\<close>. The list of that topic has
  \<open>"skils"\<close> itself, so \<open>detectTopic\<close> finds the topic in its first loop already; the
  loop of the fuzzy matches gives the same topic, and so does the input after
  \<open>preprocessMessage\<close>, which makes \<open>"skills"\<close> of it.
\<close>

theorem skils_is_skills:
  "levenshteinDistance (js ''skils'') (js ''skill'') = 1 \<and>
   (1 :: real) - real (levenshteinDistance (js ''skils'') (js ''skill'')) /
                 real (max (length (js ''skils'')) (length (js ''skill''))) = 8 / 10 \<and>
   fuzzyMatch (js ''skils'') (js ''skill'') \<and>
   detectTopic (js ''skils'') = Some (js ''skills'') \<and>
   exact_pass (js ''skils'') topicKeywords = Some (js ''skills'') \<and>
   fuzzy_pass (js ''skils'') topicKeywords = Some (js ''skills'') \<and>
   detectTopic (preprocessMessage (js ''skils'')) = Some (js ''skills'')"
proof -
  have "(1 :: real) - real (levenshteinDistance (js ''skils'') (js ''skill'')) /
                 real (max (length (js ''skils'')) (length (js ''skill''))) = 8 / 10"
    unfolding skils_distance by (simp add: js_eval)
  moreover have "detectTopic (js ''skils'') = Some (js ''skills'')"
    using skils_exact by (rule detectTopic_exact)
  moreover have "detectTopic (preprocessMessage (js ''skils'')) = Some (js ''skills'')"
    by (simp only: skils_normalized skills_classified)
  ultimately show ?thesis
    using skils_distance skils_fuzzyMatch skils_exact skils_fuzzy by simp
qed




end
